theory Spec2Isabelle
  imports Main "HOL-Library.Sublist"
begin

section \<open>JavaScript values and the built-ins used by webResource.ts\<close>

text \<open>
  The request descriptor of \<^verbatim>\<open>src/lib/webResource.ts\<close> is built from an untyped options
  object, and the code tests its fields with JavaScript truthiness and \<^verbatim>\<open>typeof\<close>. The
  values that can reach those tests are modelled by \<open>jsval\<close>: \<^verbatim>\<open>undefined\<close>,
  \<^verbatim>\<open>null\<close>, booleans, numbers, strings and plain objects. Functions, arrays and boxed
  strings are not represented.

  A number is represented by the text that ToString gives for it, which is all that this
  code can observe of it: \<^verbatim>\<open>0\<close> for both zeros, \<^verbatim>\<open>NaN\<close>, \<^verbatim>\<open>Infinity\<close>, and for every other
  number the shortest decimal text that reads back as the same double (\<^verbatim>\<open>1152921504606847000\<close>
  for \<open>2^60\<close>, \<^verbatim>\<open>1e+21\<close> for \<open>10^21\<close>). The falsy numbers are the zeros and \<^verbatim>\<open>NaN\<close>.

  A plain object is one that an object literal or \<^verbatim>\<open>JSON.parse\<close> creates: its prototype is
  \<^verbatim>\<open>Object.prototype\<close>, and it is represented by its own enumerable properties in
  iteration order, with distinct names. No value of \<open>jsval\<close> is a function, so an own
  property never holds a method. What such an object inherits is modelled where this code
  can reach it: the accessor \<^verbatim>\<open>__proto__\<close> (\<open>getProp\<close>, \<open>obj_set\<close>) and the methods
  \<^verbatim>\<open>valueOf\<close> and \<^verbatim>\<open>toString\<close> (\<open>valueOf_throws\<close>, \<open>ToString\<close>).

  A \<open>string\<close> is a list of 8-bit characters and stands for a JavaScript string whose code
  units are below 256; \<open>toUpperCase\<close> and \<open>toLowerCase\<close> are exact on ASCII.
\<close>

datatype jsval =
    JUndefined
  | JNull
  | JBool bool
  | JNum string
  | JStr string
  | JObj "(string \<times> jsval) list"

text \<open>ToBoolean: the test of \<^verbatim>\<open>if (v)\<close> and \<^verbatim>\<open>!v\<close>.\<close>

fun truthy :: "jsval \<Rightarrow> bool" where
  "truthy JUndefined = False"
| "truthy JNull = False"
| "truthy (JBool b) = b"
| "truthy (JNum t) = (t \<noteq> ''0'' \<and> t \<noteq> ''NaN'')"
| "truthy (JStr s) = (s \<noteq> [])"
| "truthy (JObj ps) = True"

text \<open>\<^verbatim>\<open>typeof v === "string"\<close>\<close>

fun is_string :: "jsval \<Rightarrow> bool" where
  "is_string (JStr s) = True"
| "is_string v = False"

text \<open>
  \<^verbatim>\<open>v.valueOf()\<close>, for a \<open>v\<close> that is neither \<^verbatim>\<open>undefined\<close> nor \<^verbatim>\<open>null\<close>, returns \<open>v\<close>
  itself: a primitive through the method of its wrapper, an object through
  \<^verbatim>\<open>Object.prototype.valueOf\<close>. When the object has an own property \<^verbatim>\<open>valueOf\<close>, that
  property is what is called; it is not a function, and the call throws a TypeError.
\<close>

fun valueOf_throws :: "jsval \<Rightarrow> bool" where
  "valueOf_throws (JObj ps) = (map_of ps ''valueOf'' \<noteq> None)"
| "valueOf_throws v = False"

text \<open>
  Property read \<^verbatim>\<open>obj[name]\<close>: an own property, or else what \<^verbatim>\<open>Object.prototype\<close> has
  under the name. Under \<^verbatim>\<open>__proto__\<close> that is \<^verbatim>\<open>Object.prototype\<close> itself, an object with no
  own enumerable property. Every other inherited property is a function, which this code
  treats like \<^verbatim>\<open>undefined\<close> wherever it reads a property by a computed name (line 150),
  and a name that is not inherited gives \<^verbatim>\<open>undefined\<close>.
\<close>

definition getProp :: "(string \<times> jsval) list \<Rightarrow> string \<Rightarrow> jsval" where
  "getProp ps name =
     (case map_of ps name of
        Some v \<Rightarrow> v
      | None \<Rightarrow> if name = ''__proto__'' then JObj [] else JUndefined)"

text \<open>
  Property write \<^verbatim>\<open>obj[name] = v\<close> on an object that \<^verbatim>\<open>{}\<close> created and that only such
  writes have changed. The list holds the own properties in the order of their creation:
  an existing property keeps its place, a new one comes last. (Iteration visits them in
  this order, after the names that are array indices.) A write under \<^verbatim>\<open>__proto__\<close> calls
  the setter of \<^verbatim>\<open>Object.prototype\<close>, which creates no own property (it changes the
  prototype when \<open>v\<close> is an object, and does nothing otherwise).
\<close>

fun own_set :: "string \<Rightarrow> jsval \<Rightarrow> (string \<times> jsval) list \<Rightarrow> (string \<times> jsval) list" where
  "own_set name v [] = [(name, v)]"
| "own_set name v ((k, w) # ps) = (if k = name then (k, v) # ps else (k, w) # own_set name v ps)"

definition obj_set :: "string \<Rightarrow> jsval \<Rightarrow> (string \<times> jsval) list \<Rightarrow> (string \<times> jsval) list" where
  "obj_set name v ps = (if name = ''__proto__'' then ps else own_set name v ps)"

text \<open>An optional boolean flag of the options object is set when it is \<^verbatim>\<open>true\<close>.\<close>

definition flag :: "bool option \<Rightarrow> bool" where
  "flag b = (b = Some True)"

subsection \<open>Strings\<close>

definition toUpperChar :: "char \<Rightarrow> char" where
  "toUpperChar c =
     (case map_of (zip ''abcdefghijklmnopqrstuvwxyz'' ''ABCDEFGHIJKLMNOPQRSTUVWXYZ'') c of
        Some u \<Rightarrow> u | None \<Rightarrow> c)"

definition toUpperCase :: "string \<Rightarrow> string" where
  "toUpperCase s = map toUpperChar s"

definition toLowerChar :: "char \<Rightarrow> char" where
  "toLowerChar c =
     (case map_of (zip ''ABCDEFGHIJKLMNOPQRSTUVWXYZ'' ''abcdefghijklmnopqrstuvwxyz'') c of
        Some l \<Rightarrow> l | None \<Rightarrow> c)"

definition toLowerCase :: "string \<Rightarrow> string" where
  "toLowerCase s = map toLowerChar s"

text \<open>\<^verbatim>\<open>s.startsWith("/")\<close>, \<^verbatim>\<open>s.endsWith("/")\<close>, \<^verbatim>\<open>s.slice(1)\<close>, \<^verbatim>\<open>s.slice(1, -1)\<close>,
  \<^verbatim>\<open>xs.join(sep)\<close>.\<close>

definition startsWithSlash :: "string \<Rightarrow> bool" where
  "startsWithSlash s = (case s of [] \<Rightarrow> False | c # r \<Rightarrow> c = CHR ''/'')"

definition endsWithSlash :: "string \<Rightarrow> bool" where
  "endsWithSlash s = (s \<noteq> [] \<and> last s = CHR ''/'')"

definition slice1 :: "string \<Rightarrow> string" where
  "slice1 s = tl s"

definition slice_1_m1 :: "string \<Rightarrow> string" where
  "slice_1_m1 s = butlast (tl s)"

fun join :: "string \<Rightarrow> string list \<Rightarrow> string" where
  "join sep [] = []"
| "join sep [x] = x"
| "join sep (x # y # xs) = x @ sep @ join sep (y # xs)"

text \<open>
  The conversion to a string that string concatenation, \<^verbatim>\<open>encodeURIComponent\<close> and
  \<^verbatim>\<open>String.prototype.replace\<close> (for a replacement that is not a function) apply; \<open>None\<close>
  is a TypeError. A plain object becomes \<^verbatim>\<open>[object Object]\<close> through
  \<^verbatim>\<open>Object.prototype.toString\<close>. When it has an own property \<^verbatim>\<open>toString\<close>, that property
  is not a function and is passed over, \<^verbatim>\<open>valueOf\<close> gives no primitive (the inherited
  method returns the object, an own property is not a function), and the conversion throws.
  This holds for both orders in which the two methods are tried.
\<close>

fun ToString :: "jsval \<Rightarrow> string option" where
  "ToString JUndefined = Some ''undefined''"
| "ToString JNull = Some ''null''"
| "ToString (JBool b) = Some (if b then ''true'' else ''false'')"
| "ToString (JNum t) = Some t"
| "ToString (JStr s) = Some s"
| "ToString (JObj ps) = (if map_of ps ''toString'' \<noteq> None then None else Some ''[object Object]'')"

subsection \<open>encodeURIComponent\<close>

text \<open>
  The unreserved characters stay; every other code unit below 128 becomes \<open>%XX\<close>, and a code
  unit from 128 to 255 becomes the two escaped bytes of its UTF-8 encoding.
\<close>

definition hexDigit :: "nat \<Rightarrow> char" where
  "hexDigit k = ''0123456789ABCDEF'' ! k"

definition uriUnreserved :: "char \<Rightarrow> bool" where
  "uriUnreserved c =
     (c \<in> set (''ABCDEFGHIJKLMNOPQRSTUVWXYZabcdefghijklmnopqrstuvwxyz0123456789''
               @ ''-_.!~*'' @ [CHR 0x27] @ ''()''))"

definition percent :: "nat \<Rightarrow> string" where
  "percent b = [CHR ''%'', hexDigit (b div 16), hexDigit (b mod 16)]"

definition encodeChar :: "char \<Rightarrow> string" where
  "encodeChar c =
     (let n = (of_char c :: nat) in
      if uriUnreserved c then [c]
      else if n < 128 then percent n
      else percent (192 + n div 64) @ percent (128 + n mod 64))"

definition encodeURIComponent :: "string \<Rightarrow> string" where
  "encodeURIComponent s = concat (map encodeChar s)"

subsection \<open>String.prototype.replace with a string pattern\<close>

text \<open>
  \<^verbatim>\<open>s.replace(pat, rep)\<close> replaces the first occurrence of \<open>pat\<close>. The replacement text is
  expanded first: \<^verbatim>\<open>$$\<close> is a dollar sign, \<^verbatim>\<open>$&\<close> the matched text, \<^verbatim>\<open>$`\<close> the text
  before the match and \<^verbatim>\<open>$'\<close> the text after it. A string pattern has no capture groups,
  so every other use of \<^verbatim>\<open>$\<close> stays as it is.
\<close>

fun find_split :: "string \<Rightarrow> string \<Rightarrow> (string \<times> string) option" where
  "find_split pat [] = (if pat = [] then Some ([], []) else None)"
| "find_split pat (c # cs) =
     (if prefix pat (c # cs) then Some ([], drop (length pat) (c # cs))
      else map_option (\<lambda>(b, a). (c # b, a)) (find_split pat cs))"

fun getSubstitution :: "string \<Rightarrow> string \<Rightarrow> string \<Rightarrow> string \<Rightarrow> string" where
  "getSubstitution m b a [] = []"
| "getSubstitution m b a [c] = [c]"
| "getSubstitution m b a (c # d # r) =
     (if c = CHR ''$'' \<and> d = CHR ''$'' then CHR ''$'' # getSubstitution m b a r
      else if c = CHR ''$'' \<and> d = CHR ''&'' then m @ getSubstitution m b a r
      else if c = CHR ''$'' \<and> d = CHR 0x60 then b @ getSubstitution m b a r
      else if c = CHR ''$'' \<and> d = CHR 0x27 then a @ getSubstitution m b a r
      else c # getSubstitution m b a (d # r))"

definition replace :: "string \<Rightarrow> string \<Rightarrow> string \<Rightarrow> string" where
  "replace s pat rep =
     (case find_split pat s of
        None \<Rightarrow> s
      | Some (b, a) \<Rightarrow> b @ getSubstitution pat b a rep @ a)"

subsection \<open>JSON text\<close>

text \<open>
  The text that \<^verbatim>\<open>JSON.stringify\<close> gives for a value of \<open>jsval\<close>. In a string, the
  quotation mark and the backslash are escaped with a backslash, backspace, tab, line
  feed, form feed and carriage return have their letter, and every other code unit below
  32 becomes \<^verbatim>\<open>\u00XX\<close> with lower-case digits. A number that is not finite becomes
  \<^verbatim>\<open>null\<close>. A property whose value is \<^verbatim>\<open>undefined\<close> is left out, and the text of
  \<^verbatim>\<open>undefined\<close> itself is \<^verbatim>\<open>undefined\<close>. It instantiates the \<open>stringify\<close> parameter of the
  model in the sample inputs.
\<close>

definition json_escape :: "char \<Rightarrow> string" where
  "json_escape c =
     (case map_of [(CHR 0x22, [CHR 0x5C, CHR 0x22]), (CHR 0x5C, [CHR 0x5C, CHR 0x5C]),
                   (CHR 0x08, [CHR 0x5C, CHR ''b'']), (CHR 0x09, [CHR 0x5C, CHR ''t'']),
                   (CHR 0x0A, [CHR 0x5C, CHR ''n'']), (CHR 0x0C, [CHR 0x5C, CHR ''f'']),
                   (CHR 0x0D, [CHR 0x5C, CHR ''r''])] c of
        Some e \<Rightarrow> e
      | None \<Rightarrow>
          if (of_char c :: nat) < 32
          then [CHR 0x5C, CHR ''u'', CHR ''0'', CHR ''0'',
                ''0123456789abcdef'' ! (of_char c div 16), ''0123456789abcdef'' ! (of_char c mod 16)]
          else [c])"

definition json_quote :: "string \<Rightarrow> string" where
  "json_quote s = concat (map json_escape s)"

fun json_text :: "jsval \<Rightarrow> string option"
  and json_members :: "(string \<times> jsval) list \<Rightarrow> string list" where
  "json_text JUndefined = None"
| "json_text JNull = Some ''null''"
| "json_text (JBool b) = Some (if b then ''true'' else ''false'')"
| "json_text (JNum t) =
     Some (if t = ''NaN'' \<or> t = ''Infinity'' \<or> t = ''-Infinity'' then ''null'' else t)"
| "json_text (JStr s) = Some ([CHR 0x22] @ json_quote s @ [CHR 0x22])"
| "json_text (JObj ps) = Some (''{'' @ join '','' (json_members ps) @ ''}'')"
| "json_members [] = []"
| "json_members ((k, v) # ps) =
     (case json_text v of
        None \<Rightarrow> json_members ps
      | Some t \<Rightarrow> ([CHR 0x22] @ json_quote k @ [CHR 0x22] @ '':'' @ t) # json_members ps)"

definition json_stringify :: "jsval \<Rightarrow> jsval" where
  "json_stringify v = (case json_text v of None \<Rightarrow> JUndefined | Some t \<Rightarrow> JStr t)"

subsection \<open>The placeholder pattern\<close>

text \<open>
  \<^verbatim>\<open>url.match(/({\w*\s*\w*})/ig)\<close> lists, from left to right, the non-overlapping
  matches of an opening brace, word characters, white space, word characters and a closing
  brace. Neither class contains a brace, so a match that starts at an opening brace is
  unique and the greedy split decides it. \<open>placeholder_at\<close> returns the matched text and
  the text after it; without a match the scan moves one character on. No match at all is
  the \<^verbatim>\<open>null\<close> of the source, which it treats like the empty list.
\<close>

definition is_word_char :: "char \<Rightarrow> bool" where
  "is_word_char c =
     (c \<in> set ''ABCDEFGHIJKLMNOPQRSTUVWXYZabcdefghijklmnopqrstuvwxyz0123456789_'')"

definition is_space_char :: "char \<Rightarrow> bool" where
  "is_space_char c = (c \<in> set [CHR 0x09, CHR 0x0A, CHR 0x0B, CHR 0x0C, CHR 0x0D, CHR 0x20, CHR 0xA0])"

definition placeholder_at :: "string \<Rightarrow> (string \<times> string) option" where
  "placeholder_at s =
     (case s of
        [] \<Rightarrow> None
      | c # r \<Rightarrow>
          if c \<noteq> CHR ''{'' then None
          else
            (let w1 = takeWhile is_word_char r; r1 = dropWhile is_word_char r;
                 sp = takeWhile is_space_char r1; r2 = dropWhile is_space_char r1;
                 w2 = takeWhile is_word_char r2; r3 = dropWhile is_word_char r2
             in case r3 of
                  [] \<Rightarrow> None
                | d # r4 \<Rightarrow>
                    if d = CHR ''}'' then Some (c # w1 @ sp @ w2 @ [d], r4) else None))"

lemma placeholder_at_shorter:
  "placeholder_at s = Some (tok, rest) \<Longrightarrow> length rest < length s"
proof -
  assume m: "placeholder_at s = Some (tok, rest)"
  then obtain c r where s: "s = c # r"
    by (cases s) (simp_all add: placeholder_at_def)
  define r3 where "r3 = dropWhile is_word_char (dropWhile is_space_char (dropWhile is_word_char r))"
  have "length r3 \<le> length r"
    unfolding r3_def
    by (meson length_dropWhile_le order_trans)
  moreover from m s have "\<exists>d. r3 = d # rest"
    unfolding r3_def
    by (auto simp: placeholder_at_def Let_def split: if_splits list.splits)
  ultimately show ?thesis
    using s by auto
qed

function find_segments :: "string \<Rightarrow> string list" where
  "find_segments [] = []"
| "find_segments (c # cs) =
     (case placeholder_at (c # cs) of
        Some (tok, rest) \<Rightarrow> tok # find_segments rest
      | None \<Rightarrow> find_segments cs)"
  by pat_completeness auto
termination
  by (relation "measure length") (auto dest: placeholder_at_shorter)

section \<open>The request descriptor\<close>

text \<open>
  Every failure of the source is a \<^verbatim>\<open>throw new Error(message)\<close>. The model has one
  constructor for each throw, named after the spec's taxonomy where the spec has a name
  (the throw of line 151 is both the spec's MissingPathParameter and its
  InvalidParameterType), with the parameter name where the message carries it.
  \<open>HostError\<close> is a failure of the serializer or of \<^verbatim>\<open>JSON.stringify\<close>.
\<close>

datatype error =
    OptionsRequired
  | MethodNotString
  | ConflictingUrlSpec
  | MissingUrlSpec
  | UrlNotString
  | InvalidMethod string
  | PathTemplateNotString
  | PathParametersRequired
  | MissingPathParameter string
  | MissingParameterValue string
  | InvalidQueryParameters
  | MissingField string
  | TypeError
  | HostError string

definition ebind :: "'e + 'a \<Rightarrow> ('a \<Rightarrow> 'e + 'b) \<Rightarrow> 'e + 'b" where
  "ebind r f = (case r of Inl e \<Rightarrow> Inl e | Inr x \<Rightarrow> f x)"

text \<open>
  What \<^verbatim>\<open>prepare\<close> calls outside webResource.ts is a parameter of the model: the schema
  serializer of serializer.ts
  (\<^verbatim>\<open>new Serializer(mappers).serialize(mapper, body, "requestBody")\<close>), the built-in
  \<^verbatim>\<open>JSON.stringify\<close>, and the identifier that \<^verbatim>\<open>generateUuid()\<close> of util/utils.ts returns
  at this call. The first two can throw.
\<close>

record env =
  serialize :: "jsval \<Rightarrow> jsval \<Rightarrow> jsval \<Rightarrow> error + jsval"
  stringify :: "jsval \<Rightarrow> error + jsval"
  generateUuid :: string

subsection \<open>Header containers\<close>

text \<open>
  A descriptor refers to its header container, and \<^verbatim>\<open>prepare\<close> changes the container in
  place. Containers therefore live in a store, at addresses; \<open>next_ref\<close> is the first
  address that no container has been given yet.
\<close>

type_synonym ref = nat

type_synonym HttpHeaders = "string \<rightharpoonup> string"

record heap =
  cells :: "ref \<Rightarrow> HttpHeaders"
  next_ref :: ref

text \<open>Modelled from the spec: \<^verbatim>\<open>HttpHeaders.get\<close> of httpHeaders.ts, which is not among
  the sources; the spec gives \<^verbatim>\<open>get(name) -> value|absent\<close> with case-insensitive names.\<close>

definition headers_get :: "heap \<Rightarrow> ref \<Rightarrow> string \<Rightarrow> string option" where
  "headers_get h r name = cells h r (toLowerCase name)"

text \<open>Modelled from the spec: \<^verbatim>\<open>HttpHeaders.set\<close> of httpHeaders.ts; a later set of a name
  that differs only by case overwrites the entry.\<close>

definition headers_set :: "heap \<Rightarrow> ref \<Rightarrow> string \<Rightarrow> string \<Rightarrow> heap" where
  "headers_set h r name v = h\<lparr>cells := (cells h)(r := (cells h r)(toLowerCase name \<mapsto> v))\<rparr>"

text \<open>Modelled from the spec: \<^verbatim>\<open>new HttpHeaders(rawHeaders)\<close> of httpHeaders.ts, a new
  container that holds the given entries.\<close>

definition new_HttpHeaders :: "heap \<Rightarrow> (string \<times> string) list \<Rightarrow> ref \<times> heap" where
  "new_HttpHeaders h raw =
     (let r = next_ref h;
          h0 = h\<lparr>cells := (cells h)(r := Map.empty), next_ref := Suc r\<rparr>
      in (r, foldl (\<lambda>h' (n, v). headers_set h' r n v) h0 raw))"


text \<open>The test \<^verbatim>\<open>!this.headers.get(name)\<close>: the header is absent or its value is empty.\<close>

definition header_falsy :: "heap \<Rightarrow> ref \<Rightarrow> string \<Rightarrow> bool" where
  "header_falsy h r name = (case headers_get h r name of None \<Rightarrow> True | Some v \<Rightarrow> v = [])"

subsection \<open>RequestPrepareOptions and WebResource\<close>

text \<open>
  The fields that \<^verbatim>\<open>prepare\<close> tests at run time (\<open>method\<close>, \<open>url\<close>, \<open>pathTemplate\<close>,
  \<open>queryParameters\<close>, \<open>body\<close>, \<open>serializationMapper\<close>) are \<open>jsval\<close>; the others have
  their declared types, \<open>None\<close> for an absent field. Abort signals, callbacks and
  operation specs are opaque references.
\<close>

type_synonym handle = nat

record RequestPrepareOptions =
  "method" :: jsval
  url :: jsval
  queryParameters :: jsval
  pathTemplate :: jsval
  baseUrl :: "string option"
  pathParameters :: "(string \<times> jsval) list option"
  formData :: jsval
  headers :: "(string \<times> string) list option"
  disableClientRequestId :: "bool option"
  body :: jsval
  serializationMapper :: jsval
  mappers :: jsval
  deserializationMapper :: jsval
  disableJsonStringifyOnBody :: "bool option"
  bodyIsStream :: "bool option"
  abortSignal :: "handle option"
  onUploadProgress :: "handle option"
  onDownloadProgress :: "handle option"

record WebResource =
  url :: string
  "method" :: string
  body :: jsval
  headers :: ref
  rawResponse :: "bool option"
  formData :: jsval
  query :: "(string \<times> jsval) list option"
  operationSpec :: "handle option"
  abortSignal :: "handle option"
  onUploadProgress :: "handle option"
  onDownloadProgress :: "handle option"

text \<open>The constructor (lines 54 to 75). Its \<open>headers\<close> argument is absent, a raw
  dictionary, or an existing container.\<close>

datatype headers_arg = NoHeaders | RawHeaders "(string \<times> string) list" | HeadersInstance ref

definition new_WebResource ::
  "string option \<Rightarrow> string option \<Rightarrow> jsval \<Rightarrow> (string \<times> jsval) list option \<Rightarrow> headers_arg \<Rightarrow>
   bool option \<Rightarrow> handle option \<Rightarrow> handle option \<Rightarrow> handle option \<Rightarrow> heap \<Rightarrow> heap \<times> WebResource" where
  "new_WebResource url' method' body' query' headers' rawResponse' abortSignal' onUploadProgress'
                   onDownloadProgress' h =
     (let (r, h') = (case headers' of
                       HeadersInstance r \<Rightarrow> (r, h)
                     | RawHeaders raw \<Rightarrow> new_HttpHeaders h raw
                     | NoHeaders \<Rightarrow> new_HttpHeaders h [])
      in (h',
          \<lparr> url = (case url' of None \<Rightarrow> [] | Some u \<Rightarrow> u),
            method = (case method' of None \<Rightarrow> ''GET'' | Some m \<Rightarrow> if m = [] then ''GET'' else m),
            body = body',
            headers = r,
            rawResponse = (case rawResponse' of None \<Rightarrow> Some False | Some b \<Rightarrow> Some b),
            formData = JUndefined,
            query = query',
            operationSpec = None,
            abortSignal = abortSignal',
            onUploadProgress = onUploadProgress',
            onDownloadProgress = onDownloadProgress' \<rparr>))"


section \<open>prepare\<close>

text \<open>
  \<^verbatim>\<open>prepare\<close> (lines 96 to 264) is one method that runs its steps in order and stops at
  the first throw. Each step is a function here, named after what it does, and \<open>prepare\<close>
  chains them. A step that throws leaves the descriptor partly assigned in the source;
  the model returns the error alone. The source also stores the default base URL into
  \<^verbatim>\<open>options.baseUrl\<close> (line 138); the model uses it without changing the options.
\<close>

text \<open>The test \<^verbatim>\<open>v == undefined || typeof v.valueOf() !== "string"\<close> of lines 101 and 110.\<close>

definition not_string_test :: "jsval \<Rightarrow> error + bool" where
  "not_string_test v =
     (if v = JUndefined \<or> v = JNull then Inr True
      else if valueOf_throws v then Inl TypeError
      else Inr (\<not> is_string v))"

text \<open>Lines 101 to 112: the checks on \<open>method\<close>, \<open>url\<close> and \<open>pathTemplate\<close>. In line 110 the
  test of \<open>url\<close> is evaluated only when the test of \<open>pathTemplate\<close> is true.\<close>

definition check_options :: "RequestPrepareOptions \<Rightarrow> error + unit" where
  "check_options opts =
     ebind (not_string_test (RequestPrepareOptions.method opts)) (\<lambda>method_missing.
       if method_missing then Inl MethodNotString
       else if truthy (RequestPrepareOptions.url opts) \<and> truthy (pathTemplate opts)
         then Inl ConflictingUrlSpec
       else
         ebind (not_string_test (pathTemplate opts)) (\<lambda>template_missing.
           if template_missing then
             ebind (not_string_test (RequestPrepareOptions.url opts)) (\<lambda>url_missing.
               if url_missing then Inl MissingUrlSpec else Inr ())
           else Inr ()))"

text \<open>Lines 115 to 120: a truthy \<open>url\<close> becomes the descriptor's URL.\<close>

definition set_url :: "RequestPrepareOptions \<Rightarrow> WebResource \<Rightarrow> error + WebResource" where
  "set_url opts wr =
     (if truthy (RequestPrepareOptions.url opts) then
        (case RequestPrepareOptions.url opts of
           JStr u \<Rightarrow> Inr (wr\<lparr>url := u\<rparr>)
         | _ \<Rightarrow> Inl UrlNotString)
      else Inr wr)"

text \<open>Lines 123 to 129: a truthy \<open>method\<close> is validated; the upper-cased \<open>method\<close> is stored
  in either case.\<close>

definition validMethods :: "string list" where
  "validMethods = [''GET'', ''PUT'', ''HEAD'', ''DELETE'', ''OPTIONS'', ''POST'', ''PATCH'', ''TRACE'']"

definition set_method :: "RequestPrepareOptions \<Rightarrow> WebResource \<Rightarrow> error + WebResource" where
  "set_method opts wr =
     (case RequestPrepareOptions.method opts of
        JStr m \<Rightarrow>
          if m \<noteq> [] \<and> toUpperCase m \<notin> set validMethods then Inl (InvalidMethod m)
          else Inr (wr\<lparr>method := toUpperCase m\<rparr>)
      | _ \<Rightarrow> Inl MethodNotString)"

text \<open>Lines 147 to 171: the callback of \<^verbatim>\<open>segments.forEach\<close>, over the matched tokens and
  the URL built so far. The message of line 151 converts \<^verbatim>\<open>pathParameters\<close> to a string
  before the error is thrown, line 161 calls \<^verbatim>\<open>pathParam.valueOf()\<close> on an object, and lines
  166 and 168 convert \<^verbatim>\<open>pathParam.value\<close> to a string.\<close>

fun replace_segments :: "(string \<times> jsval) list \<Rightarrow> string list \<Rightarrow> string \<Rightarrow> error + string" where
  "replace_segments pathParameters' [] u = Inr u"
| "replace_segments pathParameters' (item # items) u =
     (let pathParamName = slice_1_m1 item;
          pathParam = getProp pathParameters' pathParamName
      in case pathParam of
           JStr s \<Rightarrow> replace_segments pathParameters' items (replace u item (encodeURIComponent s))
         | JObj ps \<Rightarrow>
             if valueOf_throws (JObj ps) then Inl TypeError
             else if \<not> truthy (getProp ps ''value'') then Inl (MissingParameterValue pathParamName)
             else (case ToString (getProp ps ''value'') of
                     None \<Rightarrow> Inl TypeError
                   | Some v \<Rightarrow>
                       if truthy (getProp ps ''skipUrlEncoding'')
                       then replace_segments pathParameters' items (replace u item v)
                       else replace_segments pathParameters' items
                              (replace u item (encodeURIComponent v)))
         | _ \<Rightarrow>
             (case ToString (JObj pathParameters') of
                None \<Rightarrow> Inl TypeError
              | Some t \<Rightarrow> Inl (MissingPathParameter pathParamName)))"

text \<open>Lines 132 to 174: the URL from the path template.\<close>

definition defaultBaseUrl :: string where
  "defaultBaseUrl = ''https://management.azure.com''"

definition compose_url :: "string \<Rightarrow> string \<Rightarrow> string" where
  "compose_url base tmpl =
     base @ (if endsWithSlash base then [] else ''/'')
          @ (if startsWithSlash tmpl then slice1 tmpl else tmpl)"

definition construct_url :: "RequestPrepareOptions \<Rightarrow> WebResource \<Rightarrow> error + WebResource" where
  "construct_url opts wr =
     (if truthy (pathTemplate opts) then
        (case pathTemplate opts of
           JStr tmpl \<Rightarrow>
             (let base = (case baseUrl opts of
                            None \<Rightarrow> defaultBaseUrl
                          | Some b \<Rightarrow> if b = [] then defaultBaseUrl else b);
                  u = compose_url base tmpl;
                  segments = find_segments u
              in if segments \<noteq> [] then
                   (case pathParameters opts of
                      None \<Rightarrow> Inl PathParametersRequired
                    | Some pp \<Rightarrow>
                        (case replace_segments pp segments u of
                           Inl e \<Rightarrow> Inl e
                         | Inr u' \<Rightarrow> Inr (wr\<lparr>url := u'\<rparr>)))
                 else Inr (wr\<lparr>url := u\<rparr>))
         | _ \<Rightarrow> Inl PathTemplateNotString)
      else Inr wr)"

text \<open>Lines 189 to 212: the loop over the query parameters, with the list
  \<^verbatim>\<open>queryParams\<close> and the object \<^verbatim>\<open>this.query\<close> that it fills.\<close>

fun query_loop ::
  "(string \<times> jsval) list \<Rightarrow> string list \<Rightarrow> (string \<times> jsval) list \<Rightarrow>
   error + string list \<times> (string \<times> jsval) list" where
  "query_loop [] queryParams q = Inr (queryParams, q)"
| "query_loop ((queryParamName, queryParam) # rest) queryParams q =
     (if truthy queryParam then
        (case queryParam of
           JStr s \<Rightarrow>
             query_loop rest (queryParams @ [queryParamName @ ''='' @ encodeURIComponent s])
               (obj_set queryParamName (JStr (encodeURIComponent s)) q)
         | JObj ps \<Rightarrow>
             if \<not> truthy (getProp ps ''value'') then Inl (MissingParameterValue queryParamName)
             else (case ToString (getProp ps ''value'') of
                     None \<Rightarrow> Inl TypeError
                   | Some v \<Rightarrow>
                       if truthy (getProp ps ''skipUrlEncoding'')
                       then query_loop rest (queryParams @ [queryParamName @ ''='' @ v])
                              (obj_set queryParamName (getProp ps ''value'') q)
                       else query_loop rest
                              (queryParams @ [queryParamName @ ''='' @ encodeURIComponent v])
                              (obj_set queryParamName (JStr (encodeURIComponent v)) q))
         | _ \<Rightarrow> query_loop rest queryParams q)
      else query_loop rest queryParams q)"

text \<open>Lines 177 to 215: the query string.\<close>

definition append_query :: "RequestPrepareOptions \<Rightarrow> WebResource \<Rightarrow> error + WebResource" where
  "append_query opts wr =
     (if truthy (queryParameters opts) then
        (case queryParameters opts of
           JObj queryParameters' \<Rightarrow>
             (let u = (if url wr \<noteq> [] \<and> CHR ''?'' \<notin> set (url wr) then url wr @ ''?'' else url wr)
              in case query_loop queryParameters' [] [] of
                   Inl e \<Rightarrow> Inl e
                 | Inr (queryParams, q) \<Rightarrow>
                     Inr (wr\<lparr>url := u @ join ''&'' queryParams, query := Some q\<rparr>))
         | _ \<Rightarrow> Inl InvalidQueryParameters)
      else Inr wr)"

text \<open>Lines 218 to 223: the caller's headers are set on the descriptor's container.\<close>

definition merge_headers :: "RequestPrepareOptions \<Rightarrow> ref \<Rightarrow> heap \<Rightarrow> heap" where
  "merge_headers opts r h =
     (case RequestPrepareOptions.headers opts of
        None \<Rightarrow> h
      | Some hs \<Rightarrow> foldl (\<lambda>h' (headerName, v). headers_set h' r headerName v) h hs)"

text \<open>Lines 225 to 236: the three default headers.\<close>

definition default_headers :: "env \<Rightarrow> RequestPrepareOptions \<Rightarrow> ref \<Rightarrow> heap \<Rightarrow> heap" where
  "default_headers e opts r h =
     (let h1 = (if header_falsy h r ''accept-language''
                then headers_set h r ''accept-language'' ''en-US'' else h);
          h2 = (if header_falsy h1 r ''x-ms-client-request-id'' \<and> \<not> flag (disableClientRequestId opts)
                then headers_set h1 r ''x-ms-client-request-id'' (generateUuid e) else h1)
      in if header_falsy h2 r ''Content-Type''
         then headers_set h2 r ''Content-Type'' ''application/json; charset=utf-8'' else h2)"

text \<open>Lines 243 to 248: the two headers of a stream body.\<close>

definition stream_headers :: "ref \<Rightarrow> heap \<Rightarrow> heap" where
  "stream_headers r h =
     (let h1 = (if header_falsy h r ''Transfer-Encoding''
                then headers_set h r ''Transfer-Encoding'' ''chunked'' else h)
      in if headers_get h1 r ''Content-Type'' \<noteq> Some ''application/octet-stream''
         then headers_set h1 r ''Content-Type'' ''application/octet-stream'' else h1)"

text \<open>Lines 239 to 257: the body. \<^verbatim>\<open>options.body != undefined\<close> is false for
  \<^verbatim>\<open>undefined\<close> and for \<^verbatim>\<open>null\<close>.\<close>

definition set_body :: "env \<Rightarrow> RequestPrepareOptions \<Rightarrow> heap \<Rightarrow> WebResource \<Rightarrow> error + heap \<times> WebResource" where
  "set_body e opts h wr =
     (let wr1 = wr\<lparr>body := RequestPrepareOptions.body opts\<rparr>
      in if RequestPrepareOptions.body opts \<noteq> JUndefined \<and> RequestPrepareOptions.body opts \<noteq> JNull then
           (if flag (bodyIsStream opts) then Inr (stream_headers (headers wr) h, wr1)
            else
              ebind (if truthy (serializationMapper opts)
                     then (case serialize e (mappers opts) (serializationMapper opts)
                                  (RequestPrepareOptions.body opts) of
                             Inl err \<Rightarrow> Inl err
                           | Inr b \<Rightarrow> Inr (wr1\<lparr>body := b\<rparr>))
                     else Inr wr1)
                (\<lambda>wr2. if \<not> flag (disableJsonStringifyOnBody opts)
                        then (case stringify e (RequestPrepareOptions.body opts) of
                                Inl err \<Rightarrow> Inl err
                              | Inr b \<Rightarrow> Inr (h, wr2\<lparr>body := b\<rparr>))
                        else Inr (h, wr2)))
         else Inr (h, wr1))"

text \<open>Lines 259 to 261.\<close>

definition set_handles :: "RequestPrepareOptions \<Rightarrow> WebResource \<Rightarrow> WebResource" where
  "set_handles opts wr =
     wr\<lparr>abortSignal := RequestPrepareOptions.abortSignal opts,
        onDownloadProgress := RequestPrepareOptions.onDownloadProgress opts,
        onUploadProgress := RequestPrepareOptions.onUploadProgress opts\<rparr>"

text \<open>The URL of the descriptor before the query string is appended (lines 101 to 174).\<close>

definition resolve_url :: "RequestPrepareOptions \<Rightarrow> WebResource \<Rightarrow> error + WebResource" where
  "resolve_url opts wr =
     ebind (check_options opts) (\<lambda>_.
     ebind (set_url opts wr) (\<lambda>wr1.
     ebind (set_method opts wr1) (\<lambda>wr2.
     construct_url opts wr2)))"

definition prepare ::
  "env \<Rightarrow> RequestPrepareOptions option \<Rightarrow> heap \<Rightarrow> WebResource \<Rightarrow> error + heap \<times> WebResource" where
  "prepare e options h wr =
     (case options of
        None \<Rightarrow> Inl OptionsRequired
      | Some opts \<Rightarrow>
          ebind (resolve_url opts wr) (\<lambda>wr3.
          ebind (append_query opts wr3) (\<lambda>wr4.
          ebind (set_body e opts
                   (default_headers e opts (headers wr4) (merge_headers opts (headers wr4) h)) wr4)
            (\<lambda>(h', wr5). Inr (h', set_handles opts wr5)))))"

section \<open>clone\<close>


section \<open>The words of the spec\<close>





section \<open>Sample inputs\<close>

text \<open>
  The theorems below hold for every serializer, every \<^verbatim>\<open>JSON.stringify\<close> and every
  generated identifier. To instantiate them, \<open>sample_env\<close> has a serializer that wraps the
  body under the mapper's \<^verbatim>\<open>serializedName\<close>, \<open>json_stringify\<close>, and a fixed
  identifier; \<open>no_options\<close> is the options object with no
  field set, and \<open>fresh_resource\<close> is \<^verbatim>\<open>new WebResource()\<close> on the empty store.
\<close>

definition sample_env :: env where
  "sample_env =
     \<lparr> serialize = (\<lambda>mappers' mapper b.
          (case mapper of
             JObj ps \<Rightarrow>
               (case getProp ps ''serializedName'' of
                  JStr n \<Rightarrow> Inr (JObj [(n, b)])
                | _ \<Rightarrow> Inl (HostError ''mapper''))
           | _ \<Rightarrow> Inl (HostError ''mapper''))),
       stringify = (\<lambda>v. Inr (json_stringify v)),
       generateUuid = ''00000000-0000-4000-8000-000000000000'' \<rparr>"

definition no_options :: RequestPrepareOptions where
  "no_options =
     \<lparr> RequestPrepareOptions.method = JUndefined, url = JUndefined, queryParameters = JUndefined,
       pathTemplate = JUndefined, baseUrl = None, pathParameters = None, formData = JUndefined,
       headers = None, disableClientRequestId = None, body = JUndefined,
       serializationMapper = JUndefined, mappers = JUndefined, deserializationMapper = JUndefined,
       disableJsonStringifyOnBody = None, bodyIsStream = None, abortSignal = None,
       onUploadProgress = None, onDownloadProgress = None \<rparr>"

definition empty_heap :: heap where
  "empty_heap = \<lparr> cells = (\<lambda>r. Map.empty), next_ref = 0 \<rparr>"

definition fresh_resource :: "heap \<times> WebResource" where
  "fresh_resource = new_WebResource None None JUndefined None NoHeaders None None None None empty_heap"

definition serialized_body_request :: RequestPrepareOptions where
  "serialized_body_request =
     no_options\<lparr> RequestPrepareOptions.method := JStr ''PUT'',
                 RequestPrepareOptions.url := JStr ''http://h/r'',
                 RequestPrepareOptions.body := JStr ''x'',
                 serializationMapper := JObj [(''serializedName'', JStr ''name'')] \<rparr>"

definition stream_request :: RequestPrepareOptions where
  "stream_request =
     no_options\<lparr> RequestPrepareOptions.method := JStr ''PUT'',
                 RequestPrepareOptions.url := JStr ''http://h/upload'',
                 RequestPrepareOptions.body := JStr ''data'',
                 bodyIsStream := Some True,
                 serializationMapper := JObj [(''serializedName'', JStr ''name'')] \<rparr>"

definition gzip_stream_request :: RequestPrepareOptions where
  "gzip_stream_request =
     stream_request\<lparr> RequestPrepareOptions.headers := Some [(''Transfer-Encoding'', ''gzip'')] \<rparr>"

definition language_request :: RequestPrepareOptions where
  "language_request =
     no_options\<lparr> RequestPrepareOptions.method := JStr ''GET'',
                 RequestPrepareOptions.url := JStr ''http://h/'',
                 RequestPrepareOptions.headers := Some [(''Accept-Language'', ''fr-FR'')] \<rparr>"

definition empty_language_request :: RequestPrepareOptions where
  "empty_language_request =
     no_options\<lparr> RequestPrepareOptions.method := JStr ''GET'',
                 RequestPrepareOptions.url := JStr ''http://h/'',
                 RequestPrepareOptions.headers := Some [(''accept-language'', [])] \<rparr>"








definition proto_query_request :: RequestPrepareOptions where
  "proto_query_request =
     no_options\<lparr> RequestPrepareOptions.method := JStr ''GET'',
                 RequestPrepareOptions.url := JStr ''http://h/p'',
                 queryParameters := JObj [(''__proto__'', JStr ''x''), (''q'', JStr ''1'')] \<rparr>"




definition dollar_path_request :: RequestPrepareOptions where
  "dollar_path_request =
     no_options\<lparr> RequestPrepareOptions.method := JStr ''GET'',
                 pathTemplate := JStr ''/a/{x}'',
                 pathParameters :=
                   Some [(''x'', JObj [(''value'', JStr ''$$''), (''skipUrlEncoding'', JBool True)])] \<rparr>"

definition dollar_query_request :: RequestPrepareOptions where
  "dollar_query_request =
     no_options\<lparr> RequestPrepareOptions.method := JStr ''GET'',
                 RequestPrepareOptions.url := JStr ''http://h/p'',
                 queryParameters :=
                   JObj [(''x'', JObj [(''value'', JStr ''$$''), (''skipUrlEncoding'', JBool True)])] \<rparr>"


section \<open>The steps of prepare\<close>

lemma ebind_Inr_iff: "(ebind r f = Inr y) = (\<exists>x. r = Inr x \<and> f x = Inr y)"
  by (cases r) (simp_all add: ebind_def)

lemma Inr_projr: "\<not> isl p \<Longrightarrow> p = Inr (fst (projr p), snd (projr p))"
  by (cases p) simp_all

lemma set_url_headers: "set_url opts wr = Inr wr1 \<Longrightarrow> headers wr1 = headers wr"
  by (auto simp: set_url_def split: if_splits jsval.splits)

lemma set_method_headers: "set_method opts wr = Inr wr1 \<Longrightarrow> headers wr1 = headers wr"
  by (auto simp: set_method_def split: if_splits jsval.splits)

lemma construct_url_headers: "construct_url opts wr = Inr wr1 \<Longrightarrow> headers wr1 = headers wr"
  by (auto simp: construct_url_def Let_def split: if_splits jsval.splits option.splits sum.splits)

lemma resolve_url_headers: "resolve_url opts wr = Inr wr3 \<Longrightarrow> headers wr3 = headers wr"
  by (auto simp: resolve_url_def ebind_Inr_iff
           dest!: set_url_headers set_method_headers construct_url_headers)

lemma append_query_headers: "append_query opts wr = Inr wr1 \<Longrightarrow> headers wr1 = headers wr"
  by (auto simp: append_query_def Let_def split: if_splits jsval.splits sum.splits)

lemma set_body_frame:
  "set_body e opts h wr = Inr (h', wr') \<Longrightarrow>
   headers wr' = headers wr \<and> url wr' = url wr \<and> method wr' = method wr \<and> query wr' = query wr"
  by (auto simp: set_body_def Let_def ebind_Inr_iff split: if_splits sum.splits)


text \<open>A successful \<open>prepare\<close> went through every step; the container it works on is the
  one of the descriptor it was called on.\<close>

lemma prepare_Inr_D:
  assumes "prepare e (Some opts) h wr = Inr (h', wr')"
  obtains wr3 wr4 wr5 where
    "resolve_url opts wr = Inr wr3"
    "append_query opts wr3 = Inr wr4"
    "set_body e opts (default_headers e opts (headers wr) (merge_headers opts (headers wr) h)) wr4
       = Inr (h', wr5)"
    "wr' = set_handles opts wr5"
proof -
  from assms obtain wr3 wr4 wr5 where
    a: "resolve_url opts wr = Inr wr3" and b: "append_query opts wr3 = Inr wr4"
    and c: "set_body e opts
              (default_headers e opts (headers wr4) (merge_headers opts (headers wr4) h)) wr4
            = Inr (h', wr5)"
    and d: "wr' = set_handles opts wr5"
    by (auto simp: prepare_def ebind_Inr_iff)
  have "headers wr4 = headers wr"
    using a b by (simp add: resolve_url_headers append_query_headers)
  with a b c d that show ?thesis by simp
qed





section \<open>What a plain object inherits\<close>

text \<open>
  \<open>prepare\<close> at inputs that reach what a plain object inherits. A placeholder named
  \<^verbatim>\<open>__proto__\<close> with no such path parameter reads \<^verbatim>\<open>Object.prototype\<close>, an object with no
  \<^verbatim>\<open>value\<close> (line 163); a path template or a URL with an own property \<^verbatim>\<open>valueOf\<close> makes
  line 110 throw a TypeError; so does a parameter value with an own property
  \<^verbatim>\<open>toString\<close> when it is converted to a string.
\<close>

lemma prepare_inherited_proto_parameter:
  "projl (prepare sample_env
     (Some (no_options\<lparr> RequestPrepareOptions.method := JStr ''GET'',
                         pathTemplate := JStr ''/{__proto__}'', pathParameters := Some [] \<rparr>))
     (fst fresh_resource) (snd fresh_resource))
   = MissingParameterValue ''__proto__''
   \<and> isl (prepare sample_env
     (Some (no_options\<lparr> RequestPrepareOptions.method := JStr ''GET'',
                         pathTemplate := JStr ''/{__proto__}'', pathParameters := Some [] \<rparr>))
     (fst fresh_resource) (snd fresh_resource))"
  by code_simp

lemma prepare_own_valueOf:
  "map (\<lambda>opts. map_sum id (\<lambda>r. url (snd r))
               (prepare sample_env (Some opts) (fst fresh_resource) (snd fresh_resource)))
     [no_options\<lparr> RequestPrepareOptions.method := JStr ''GET'',
                  pathTemplate := JObj [(''valueOf'', JNull)] \<rparr>,
      no_options\<lparr> RequestPrepareOptions.method := JStr ''GET'',
                  RequestPrepareOptions.url := JObj [(''valueOf'', JStr ''x'')] \<rparr>,
      no_options\<lparr> RequestPrepareOptions.method := JStr ''GET'',
                  RequestPrepareOptions.url := JObj [] \<rparr>]
   = [Inl TypeError, Inl TypeError, Inl MissingUrlSpec]"
  by code_simp

lemma prepare_own_toString:
  "map (\<lambda>v. map_sum id (\<lambda>r. url (snd r))
            (prepare sample_env
               (Some (no_options\<lparr> RequestPrepareOptions.method := JStr ''GET'',
                                   RequestPrepareOptions.url := JStr ''http://h/p'',
                                   queryParameters := JObj [(''q'', JObj [(''value'', v)])] \<rparr>))
               (fst fresh_resource) (snd fresh_resource)))
     [JObj [(''toString'', JNull)], JObj [(''valueOf'', JNull)], JNum ''1e+21'']
   = [Inl TypeError, Inr ''http://h/p?q=%5Bobject%20Object%5D'', Inr ''http://h/p?q=1e%2B21'']"
  by code_simp

text \<open>The JSON text of a string with a line feed, the code unit 1 and a quotation mark,
  and of the numbers \<open>2^60\<close> and \<^verbatim>\<open>NaN\<close>.\<close>

lemma json_stringify_escapes:
  \<open>json_stringify (JStr [CHR 0x0A, CHR 0x01, CHR 0x22])
     = JStr [CHR 0x22, CHR 0x5C, CHR ''n'', CHR 0x5C, CHR ''u'', CHR ''0'', CHR ''0'', CHR ''0'', CHR ''1'',
             CHR 0x5C, CHR 0x22, CHR 0x22]
   \<and> json_stringify (JObj [(''n'', JNum ''1152921504606847000''), (''m'', JNum ''NaN'')])
     = JStr ''{"n":1152921504606847000,"m":null}''\<close>
  by code_simp

section \<open>The body\<close>

lemma set_body_json_of_raw_input:
  assumes "set_body e opts h wr = Inr (h', wr')"
    and "RequestPrepareOptions.body opts \<noteq> JUndefined"
    and "RequestPrepareOptions.body opts \<noteq> JNull"
    and "\<not> flag (bodyIsStream opts)" and "\<not> flag (disableJsonStringifyOnBody opts)"
  shows "stringify e (RequestPrepareOptions.body opts) = Inr (body wr')"
  using assms
  by (auto simp: set_body_def Let_def ebind_Inr_iff split: if_splits sum.splits)

text \<open>Whenever JSON encoding is on, the stored body is the JSON text of the body the caller
  passed, with or without a serialization mapper: line 254 stringifies \<^verbatim>\<open>options.body\<close>,
  not the \<^verbatim>\<open>this.body\<close> that line 251 has just assigned.\<close>

lemma prepare_json_of_raw_input:
  assumes "prepare e (Some opts) h wr = Inr (h', wr')"
    and "RequestPrepareOptions.body opts \<noteq> JUndefined"
    and "RequestPrepareOptions.body opts \<noteq> JNull"
    and "\<not> flag (bodyIsStream opts)" and "\<not> flag (disableJsonStringifyOnBody opts)"
  shows "stringify e (RequestPrepareOptions.body opts) = Inr (body wr')"
proof -
  from assms(1) obtain wr4 wr5 where
    c: "set_body e opts (default_headers e opts (headers wr) (merge_headers opts (headers wr) h)) wr4
          = Inr (h', wr5)"
    and d: "wr' = set_handles opts wr5"
    by (rule prepare_Inr_D)
  from set_body_json_of_raw_input [OF c assms(2-5)] d show ?thesis
    by (simp add: set_handles_def)
qed

text \<open>
  Claim C1: with a defined body, no stream flag, a serialization mapper and JSON encoding
  on, the stored body is the JSON text of the serialized body. The code does not do this.
  For the body \<^verbatim>\<open>"x"\<close> and a mapper under which the serializer returns
  \<^verbatim>\<open>{name: "x"}\<close>, whose JSON text is \<^verbatim>\<open>{"name":"x"}\<close>, the stored body is \<^verbatim>\<open>"x"\<close> in
  quotes, the JSON text of the caller's body.
\<close>

theorem prepare_stringifies_raw_body:
  "body (snd (projr (prepare sample_env (Some serialized_body_request)
                       (fst fresh_resource) (snd fresh_resource))))
     = JStr [CHR 0x22, CHR ''x'', CHR 0x22]
   \<and> serialize sample_env JUndefined (JObj [(''serializedName'', JStr ''name'')]) (JStr ''x'')
     = Inr (JObj [(''name'', JStr ''x'')])
   \<and> stringify sample_env (JObj [(''name'', JStr ''x'')])
     = Inr (JStr ([CHR ''{'', CHR 0x22] @ ''name'' @ [CHR 0x22, CHR '':'', CHR 0x22, CHR ''x'',
                   CHR 0x22, CHR ''}'']))"
  by code_simp

section \<open>Headers\<close>

lemma lower_names:
  "toLowerCase ''accept-language'' = ''accept-language''"
  "toLowerCase ''x-ms-client-request-id'' = ''x-ms-client-request-id''"
  "toLowerCase ''Content-Type'' = ''content-type''"
  "toLowerCase ''Transfer-Encoding'' = ''transfer-encoding''"
  by (simp_all add: toLowerCase_def toLowerChar_def)

lemma headers_get_set:
  "headers_get (headers_set h r n v) r' m =
     (if r' = r \<and> toLowerCase m = toLowerCase n then Some v else headers_get h r' m)"
  by (simp add: headers_get_def headers_set_def)

lemma get_cond_set:
  "headers_get (if c then headers_set h r n v else h) r' m =
     (if c \<and> r' = r \<and> toLowerCase m = toLowerCase n then Some v else headers_get h r' m)"
  by (simp add: headers_get_set)

lemma falsy_cond_set:
  "header_falsy (if c then headers_set h r n v else h) r' m =
     (if c \<and> r' = r \<and> toLowerCase m = toLowerCase n then v = [] else header_falsy h r' m)"
  by (simp add: header_falsy_def headers_get_set)

lemma default_headers_get:
  "headers_get (default_headers e opts r h) r' m =
     (if r' = r \<and> toLowerCase m = ''content-type'' \<and> header_falsy h r ''Content-Type''
        then Some ''application/json; charset=utf-8''
      else if r' = r \<and> toLowerCase m = ''x-ms-client-request-id''
              \<and> header_falsy h r ''x-ms-client-request-id'' \<and> \<not> flag (disableClientRequestId opts)
        then Some (generateUuid e)
      else if r' = r \<and> toLowerCase m = ''accept-language'' \<and> header_falsy h r ''accept-language''
        then Some ''en-US''
      else headers_get h r' m)"
  unfolding default_headers_def Let_def
  apply (simp only: get_cond_set falsy_cond_set lower_names)
  apply simp
  done

lemma default_headers_falsy_transfer_encoding:
  "header_falsy (default_headers e opts r h) r ''Transfer-Encoding'' =
   header_falsy h r ''Transfer-Encoding''"
  by (simp add: header_falsy_def default_headers_get lower_names)

lemma stream_headers_get:
  "headers_get (stream_headers r h) r' m =
     (if r' = r \<and> toLowerCase m = ''content-type'' then Some ''application/octet-stream''
      else if r' = r \<and> toLowerCase m = ''transfer-encoding'' \<and> header_falsy h r ''Transfer-Encoding''
        then Some ''chunked''
      else headers_get h r' m)"
proof -
  have "toLowerCase m = ''content-type'' \<Longrightarrow> headers_get h r m = headers_get h r ''Content-Type''"
    by (simp add: headers_get_def lower_names)
  then show ?thesis
    unfolding stream_headers_def Let_def
    apply (simp only: get_cond_set falsy_cond_set lower_names)
    apply simp
    done
qed

lemma set_body_heap:
  "set_body e opts h wr = Inr (h', wr') \<Longrightarrow>
   h' = (if RequestPrepareOptions.body opts \<noteq> JUndefined \<and> RequestPrepareOptions.body opts \<noteq> JNull
            \<and> flag (bodyIsStream opts)
         then stream_headers (headers wr) h else h)"
  by (auto simp: set_body_def Let_def ebind_Inr_iff split: if_splits sum.splits)

lemma prepare_heap:
  assumes "prepare e (Some opts) h wr = Inr (h', wr')"
  shows "headers wr' = headers wr"
    and "h' = (if RequestPrepareOptions.body opts \<noteq> JUndefined
                  \<and> RequestPrepareOptions.body opts \<noteq> JNull \<and> flag (bodyIsStream opts)
               then stream_headers (headers wr)
                      (default_headers e opts (headers wr) (merge_headers opts (headers wr) h))
               else default_headers e opts (headers wr) (merge_headers opts (headers wr) h))"
proof -
  from assms obtain wr3 wr4 wr5 where
    a: "resolve_url opts wr = Inr wr3" and b: "append_query opts wr3 = Inr wr4"
    and c: "set_body e opts (default_headers e opts (headers wr) (merge_headers opts (headers wr) h)) wr4
          = Inr (h', wr5)"
    and d: "wr' = set_handles opts wr5"
    by (rule prepare_Inr_D)
  have r: "headers wr4 = headers wr"
    using a b by (simp add: resolve_url_headers append_query_headers)
  from set_body_frame [OF c] d r show "headers wr' = headers wr"
    by (simp add: set_handles_def)
  from set_body_heap [OF c] r show "h' = (if RequestPrepareOptions.body opts \<noteq> JUndefined
                  \<and> RequestPrepareOptions.body opts \<noteq> JNull \<and> flag (bodyIsStream opts)
               then stream_headers (headers wr)
                      (default_headers e opts (headers wr) (merge_headers opts (headers wr) h))
               else default_headers e opts (headers wr) (merge_headers opts (headers wr) h))"
    by simp
qed

text \<open>
  Claim C9 (as amended): after the caller's headers are merged in, \<^verbatim>\<open>accept-language\<close>
  becomes \<^verbatim>\<open>en-US\<close> exactly when the merged container has no such header or has it with
  the empty value; the client request id becomes the generated identifier exactly when it
  is absent or empty and \<^verbatim>\<open>disableClientRequestId\<close> is not set; \<^verbatim>\<open>Content-Type\<close> becomes
  the JSON content type exactly when it is absent or empty (and a stream body then
  replaces it). In every other case the header keeps the value it had after the merge, so
  a header the caller set to a non-empty value is not overwritten by defaulting.
\<close>

theorem prepare_default_headers:
  assumes "prepare e (Some opts) h wr = Inr (h', wr')"
  shows "headers_get h' (headers wr') ''accept-language'' =
           (if header_falsy (merge_headers opts (headers wr) h) (headers wr) ''accept-language''
            then Some ''en-US''
            else headers_get (merge_headers opts (headers wr) h) (headers wr) ''accept-language'')
       \<and> headers_get h' (headers wr') ''x-ms-client-request-id'' =
           (if header_falsy (merge_headers opts (headers wr) h) (headers wr) ''x-ms-client-request-id''
               \<and> \<not> flag (disableClientRequestId opts)
            then Some (generateUuid e)
            else headers_get (merge_headers opts (headers wr) h) (headers wr) ''x-ms-client-request-id'')
       \<and> headers_get h' (headers wr') ''Content-Type'' =
           (if RequestPrepareOptions.body opts \<noteq> JUndefined
               \<and> RequestPrepareOptions.body opts \<noteq> JNull \<and> flag (bodyIsStream opts)
            then Some ''application/octet-stream''
            else if header_falsy (merge_headers opts (headers wr) h) (headers wr) ''Content-Type''
            then Some ''application/json; charset=utf-8''
            else headers_get (merge_headers opts (headers wr) h) (headers wr) ''Content-Type'')"
  using prepare_heap [OF assms]
  by (simp add: default_headers_get stream_headers_get lower_names)

theorem prepare_default_headers_witness:
  "headers_get (fst (projr (prepare sample_env (Some language_request) (fst fresh_resource) (snd fresh_resource))))
        (headers (snd (projr (prepare sample_env (Some language_request) (fst fresh_resource) (snd fresh_resource)))))
        ''accept-language'' = Some ''fr-FR''
   \<and> headers_get (fst (projr (prepare sample_env (Some language_request) (fst fresh_resource) (snd fresh_resource))))
        (headers (snd (projr (prepare sample_env (Some language_request) (fst fresh_resource) (snd fresh_resource)))))
        ''x-ms-client-request-id'' = Some ''00000000-0000-4000-8000-000000000000''
   \<and> headers_get (fst (projr (prepare sample_env (Some language_request) (fst fresh_resource) (snd fresh_resource))))
        (headers (snd (projr (prepare sample_env (Some language_request) (fst fresh_resource) (snd fresh_resource)))))
        ''Content-Type'' = Some ''application/json; charset=utf-8''"
proof -
  let ?p = "prepare sample_env (Some language_request) (fst fresh_resource) (snd fresh_resource)"
  have "\<not> isl ?p"
    by code_simp
  then have ok: "?p = Inr (fst (projr ?p), snd (projr ?p))"
    by (rule Inr_projr)
  have m: "headers_get (merge_headers language_request (headers (snd fresh_resource)) (fst fresh_resource))
             (headers (snd fresh_resource)) ''accept-language'' = Some ''fr-FR''"
    "\<not> header_falsy (merge_headers language_request (headers (snd fresh_resource)) (fst fresh_resource))
             (headers (snd fresh_resource)) ''accept-language''"
    "header_falsy (merge_headers language_request (headers (snd fresh_resource)) (fst fresh_resource))
             (headers (snd fresh_resource)) ''x-ms-client-request-id''"
    "header_falsy (merge_headers language_request (headers (snd fresh_resource)) (fst fresh_resource))
             (headers (snd fresh_resource)) ''Content-Type''"
    "\<not> flag (disableClientRequestId language_request)"
    "RequestPrepareOptions.body language_request = JUndefined"
    "generateUuid sample_env = ''00000000-0000-4000-8000-000000000000''"
    by code_simp+
  from prepare_default_headers [OF ok] m show ?thesis
    by simp
qed

text \<open>The claim as stated fails: a caller's \<^verbatim>\<open>accept-language\<close> header with the empty value
  is in the container after the merge, and defaulting overwrites it.\<close>

theorem prepare_overwrites_empty_header:
  "headers_get (merge_headers empty_language_request (headers (snd fresh_resource)) (fst fresh_resource))
     (headers (snd fresh_resource)) ''accept-language'' = Some []
   \<and> headers_get (fst (projr (prepare sample_env (Some empty_language_request) (fst fresh_resource) (snd fresh_resource))))
        (headers (snd (projr (prepare sample_env (Some empty_language_request) (fst fresh_resource) (snd fresh_resource)))))
        ''accept-language'' = Some ''en-US''"
  by code_simp

lemma set_body_stream:
  assumes "RequestPrepareOptions.body opts \<noteq> JUndefined" "RequestPrepareOptions.body opts \<noteq> JNull"
    "flag (bodyIsStream opts)"
  shows "set_body e opts h wr =
         Inr (stream_headers (headers wr) h, wr\<lparr>body := RequestPrepareOptions.body opts\<rparr>)"
  using assms by (simp add: set_body_def Let_def)

lemma default_headers_env:
  "default_headers (e\<lparr>serialize := s, stringify := j\<rparr>) opts r h = default_headers e opts r h"
  by (simp add: default_headers_def Let_def)

text \<open>
  Claim C2 (as amended): with a body that is neither \<^verbatim>\<open>undefined\<close> nor \<^verbatim>\<open>null\<close> and
  \<^verbatim>\<open>bodyIsStream\<close> set, the body is stored as it is, whatever the serializer and
  \<^verbatim>\<open>JSON.stringify\<close> are (they are not called), \<^verbatim>\<open>Content-Type\<close> is
  \<^verbatim>\<open>application/octet-stream\<close>, and \<^verbatim>\<open>Transfer-Encoding\<close> is \<^verbatim>\<open>chunked\<close> only when the
  caller's headers have no non-empty \<^verbatim>\<open>Transfer-Encoding\<close>; otherwise the caller's value
  stays.
\<close>

theorem prepare_stream_body:
  assumes "prepare e (Some opts) h wr = Inr (h', wr')"
    and "RequestPrepareOptions.body opts \<noteq> JUndefined"
    and "RequestPrepareOptions.body opts \<noteq> JNull"
    and "flag (bodyIsStream opts)"
  shows "body wr' = RequestPrepareOptions.body opts
       \<and> headers_get h' (headers wr') ''Content-Type'' = Some ''application/octet-stream''
       \<and> headers_get h' (headers wr') ''Transfer-Encoding'' =
           (if header_falsy (merge_headers opts (headers wr) h) (headers wr) ''Transfer-Encoding''
            then Some ''chunked''
            else headers_get (merge_headers opts (headers wr) h) (headers wr) ''Transfer-Encoding'')
       \<and> prepare (e\<lparr>serialize := s, stringify := j\<rparr>) (Some opts) h wr = prepare e (Some opts) h wr"
proof -
  from assms(1) obtain wr4 wr5 where
    c: "set_body e opts (default_headers e opts (headers wr) (merge_headers opts (headers wr) h)) wr4
          = Inr (h', wr5)"
    and d: "wr' = set_handles opts wr5"
    by (rule prepare_Inr_D)
  from c d assms(2-4) have 1: "body wr' = RequestPrepareOptions.body opts"
    by (auto simp add: set_body_stream set_handles_def)
  have 2: "headers_get h' (headers wr') ''Content-Type'' = Some ''application/octet-stream''"
   and 3: "headers_get h' (headers wr') ''Transfer-Encoding'' =
           (if header_falsy (merge_headers opts (headers wr) h) (headers wr) ''Transfer-Encoding''
            then Some ''chunked''
            else headers_get (merge_headers opts (headers wr) h) (headers wr) ''Transfer-Encoding'')"
    using prepare_heap [OF assms(1)] assms(2-4)
    by (simp_all add: stream_headers_get default_headers_get default_headers_falsy_transfer_encoding lower_names)
  have 4: "prepare (e\<lparr>serialize := s, stringify := j\<rparr>) (Some opts) h wr = prepare e (Some opts) h wr"
    using assms(2-4) by (simp add: prepare_def set_body_stream default_headers_env)
  from 1 2 3 4 show ?thesis by simp
qed

theorem prepare_stream_body_witness:
  "body (snd (projr (prepare sample_env (Some stream_request) (fst fresh_resource) (snd fresh_resource))))
     = JStr ''data''
   \<and> headers_get (fst (projr (prepare sample_env (Some stream_request) (fst fresh_resource) (snd fresh_resource))))
        (headers (snd (projr (prepare sample_env (Some stream_request) (fst fresh_resource) (snd fresh_resource)))))
        ''Content-Type'' = Some ''application/octet-stream''
   \<and> headers_get (fst (projr (prepare sample_env (Some stream_request) (fst fresh_resource) (snd fresh_resource))))
        (headers (snd (projr (prepare sample_env (Some stream_request) (fst fresh_resource) (snd fresh_resource)))))
        ''Transfer-Encoding'' = Some ''chunked''"
proof -
  let ?p = "prepare sample_env (Some stream_request) (fst fresh_resource) (snd fresh_resource)"
  have "\<not> isl ?p"
    by code_simp
  then have ok: "?p = Inr (fst (projr ?p), snd (projr ?p))"
    by (rule Inr_projr)
  have b: "RequestPrepareOptions.body stream_request \<noteq> JUndefined"
    "RequestPrepareOptions.body stream_request \<noteq> JNull" "flag (bodyIsStream stream_request)"
    by (simp_all add: stream_request_def no_options_def flag_def)
  have c: "RequestPrepareOptions.body stream_request = JStr ''data''"
    by (simp add: stream_request_def no_options_def)
  have f: "header_falsy (merge_headers stream_request (headers (snd fresh_resource)) (fst fresh_resource))
             (headers (snd fresh_resource)) ''Transfer-Encoding''"
    by code_simp
  from prepare_stream_body [OF ok b] c f show ?thesis
    by simp
qed

text \<open>The claim as stated fails: a caller's \<^verbatim>\<open>Transfer-Encoding: gzip\<close> stays.\<close>

theorem prepare_stream_keeps_transfer_encoding:
  "\<not> isl (prepare sample_env (Some gzip_stream_request) (fst fresh_resource) (snd fresh_resource))
   \<and> headers_get (fst (projr (prepare sample_env (Some gzip_stream_request) (fst fresh_resource) (snd fresh_resource))))
        (headers (snd (projr (prepare sample_env (Some gzip_stream_request) (fst fresh_resource) (snd fresh_resource)))))
        ''Transfer-Encoding'' = Some ''gzip''"
  by code_simp

section \<open>The method\<close>




















section \<open>The URL and the path template\<close>










section \<open>The query string\<close>






text \<open>The example of the spec: \<^verbatim>\<open>{q: "a&b"}\<close> gives \<^verbatim>\<open>q=a%26b\<close> in the URL and
  \<^verbatim>\<open>{q: "a%26b"}\<close> as the query map, and an entry with an empty string is skipped.\<close>

lemma prepare_query_map_example:
  "map_sum id (\<lambda>r. (url (snd r), query (snd r)))
     (prepare sample_env
        (Some (no_options\<lparr> RequestPrepareOptions.method := JStr ''GET'',
                            RequestPrepareOptions.url := JStr ''http://h/p'',
                            queryParameters := JObj [(''skipped'', JStr []), (''q'', JStr ''a&b'')] \<rparr>))
        (fst fresh_resource) (snd fresh_resource))
   = Inr (''http://h/p?q=a%26b'', Some [(''q'', JStr ''a%26b'')])"
  by code_simp

text \<open>
  Claim C6 at the query parameters that \<^verbatim>\<open>JSON.parse('{"__proto__": "x", "q": "1"}')\<close>
  returns, an object with the two own properties \<^verbatim>\<open>__proto__\<close> and \<^verbatim>\<open>q\<close>: \<open>prepare\<close>
  returns, line 196 has appended both pairs to the URL, and the query map has \<^verbatim>\<open>q\<close> only.
  The write of line 197 under the name \<^verbatim>\<open>__proto__\<close> has recorded nothing, so the query map
  does not hold every parameter that this step has appended.
\<close>

theorem prepare_query_map_misses_proto:
  "\<not> isl (prepare sample_env (Some proto_query_request) (fst fresh_resource) (snd fresh_resource))
   \<and> url (snd (projr (prepare sample_env (Some proto_query_request)
                        (fst fresh_resource) (snd fresh_resource))))
     = ''http://h/p?__proto__=x&q=1''
   \<and> query (snd (projr (prepare sample_env (Some proto_query_request)
                          (fst fresh_resource) (snd fresh_resource))))
     = Some [(''q'', JStr ''1'')]"
  by code_simp

section \<open>Template resolution\<close>



















text \<open>
  Claim C7: a wrapper object with a truthy \<open>value\<close> and a truthy \<open>skipUrlEncoding\<close> is put
  into the URL verbatim, in template resolution as in query composition. The query loop
  does so (line 204 concatenates). Template resolution does not: line 166 passes the
  value to \<^verbatim>\<open>String.prototype.replace\<close> as the replacement text, in which a dollar sign
  is a pattern character. For the value \<^verbatim>\<open>$$\<close> the path segment is \<^verbatim>\<open>$\<close>, and the query
  pair is \<^verbatim>\<open>x=$$\<close>.
\<close>

theorem prepare_skip_encoding_dollar:
  "url (snd (projr (prepare sample_env (Some dollar_path_request) (fst fresh_resource) (snd fresh_resource))))
     = ''https://management.azure.com/a/$''
   \<and> url (snd (projr (prepare sample_env (Some dollar_query_request) (fst fresh_resource) (snd fresh_resource))))
     = ''http://h/p?x=$$''
   \<and> query (snd (projr (prepare sample_env (Some dollar_query_request) (fst fresh_resource) (snd fresh_resource))))
     = Some [(''x'', JStr ''$$'')]"
  by code_simp

section \<open>Cloning\<close>












end
